theory Spec2Isabelle
  imports Main
begin

section \<open>Tokens, diagnostics and the parser object\<close>

text \<open>
  A token of the tokenizer (\<open>GOX_lexer.Token\<close>): the parser reads its attributes
  \<open>type\<close>, \<open>value\<close> and \<open>lineno\<close>. Token types are the strings the parser compares
  against (\<open>'IMPORT'\<close>, \<open>'ID'\<close>, ...); the value is the source text of the token.
\<close>

record token =
  tok_type :: string
  tok_value :: string
  lineno :: int

text \<open>
  The second argument of \<open>add_error\<close> is a line number or the text \<open>"End of file"\<close>.
\<close>

datatype lineinfo = LineNo int | LineText string

type_synonym diagnostic = "string \<times> lineinfo"

text \<open>
  Modelled from the spec: the class \<open>ErrorHandler\<close> (module \<open>GOX_error_handler\<close>) is
  not among the sources. Section 4.2 gives its contract: \<open>add_error\<close> appends a
  (message, line) pair, \<open>has_errors\<close> says whether any was recorded, and \<open>errors\<close> is the
  sequence in detection order.
\<close>

definition add_error :: "string \<Rightarrow> lineinfo \<Rightarrow> diagnostic list \<Rightarrow> diagnostic list" where
  "add_error msg ln errs = errs @ [(msg, ln)]"


text \<open>The attributes of a \<open>Parser\<close> object.\<close>

record parser =
  tokens :: "token list"
  error_handler :: "diagnostic list"
  pos :: nat
  current_token :: "token option"

definition Parser :: "token list \<Rightarrow> diagnostic list \<Rightarrow> parser" where
  "Parser toks eh =
     \<lparr>tokens = toks, error_handler = eh, pos = 0,
      current_token = (case toks of [] \<Rightarrow> None | t # _ \<Rightarrow> Some t)\<rparr>"

definition advance :: "parser \<Rightarrow> parser" where
  "advance s =
     (let p = pos s + 1 in
      s\<lparr>pos := p,
        current_token := (if p < length (tokens s) then Some (tokens s ! p) else None)\<rparr>)"

definition peek :: "parser \<Rightarrow> nat \<Rightarrow> token option" where
  "peek s offset =
     (let peek_pos = pos s + offset in
      if peek_pos < length (tokens s) then Some (tokens s ! peek_pos) else None)"

text \<open>
  \<open>expect\<close> returns the consumed token, or \<open>False\<close> (here \<open>None\<close>) after recording a
  diagnostic. \<open>err_msg or f"Expected {token_type}"\<close> takes the default for a missing
  message and for an empty one.
\<close>

definition expect :: "string \<Rightarrow> string option \<Rightarrow> parser \<Rightarrow> token option \<times> parser" where
  "expect token_type err_msg s =
     (case current_token s of
        Some t \<Rightarrow>
          if tok_type t = token_type then (Some t, advance s)
          else
            (let err = (case err_msg of
                          None \<Rightarrow> ''Expected '' @ token_type
                        | Some m \<Rightarrow> if m = [] then ''Expected '' @ token_type else m)
             in (None, s\<lparr>error_handler := add_error err (LineNo (lineno t)) (error_handler s)\<rparr>))
      | None \<Rightarrow>
          (let err = (case err_msg of
                        None \<Rightarrow> ''Expected '' @ token_type
                      | Some m \<Rightarrow> if m = [] then ''Expected '' @ token_type else m)
           in (None, s\<lparr>error_handler :=
                          add_error err (LineText ''End of file'') (error_handler s)\<rparr>)))"

section \<open>The syntax tree\<close>

text \<open>
  The value of a Python \<open>float\<close>, a binary64 number: \<open>Finite neg m e\<close> is
  \<open>m * 2 ^ e\<close>, negated when \<open>neg\<close> holds, with \<open>m < 2 ^ 53\<close> and
  \<open>- 1074 \<le> e \<le> 971\<close> (\<open>2 ^ 52 \<le> m\<close> unless \<open>e = - 1074\<close>; zero is \<open>Finite neg 0 0\<close>).
\<close>

datatype pyfloat = Finite bool nat int | Infinite bool | NaN

text \<open>
  Modelled from the spec: the node classes of \<open>GOX_AST_nodes\<close> are not among the
  sources. The constructors take their arguments in the order the parser passes them, and
  the attributes are those the serializer reads. Python leaves every slot untyped: a
  sub-expression or a nested statement is \<open>None\<close> where the rule that should have
  produced it failed, so these slots are options.

  \<open>Float\<close> carries the number that \<open>float()\<close> built, a \<open>pyfloat\<close>.
\<close>

datatype node =
    Program "node option list"
  | Integer int
  | Float pyfloat
  | Boolean bool
  | String string
  | BinOp string "node option" "node option"
  | UnaryOp string "node option"
  | Location string
  | FunctionCall string "node option list"
  | Print "node option"
  | Assignment node "node option"
  | If "node option" "node option list" "node option list"
  | While "node option" "node option list"
  | VariableDecl string "string option" "node option"
  | ConstantDecl string "node option"
  | FunctionDecl string "node option list" "string option" "node option list"
  | Return "node option"
  | Parameter string "string option"
  | ImportDecl string

section \<open>Conversions of literal text\<close>

text \<open>
  Token text is a \<open>string\<close>, so its characters have code points below 256. Among these
  \<open>int()\<close> and \<open>float()\<close> skip, at both ends of the text, the space, the characters 9 to
  13, and the characters 0x85 and 0xA0; the decimal digits are \<open>0\<close> to \<open>9\<close>.
\<close>

definition is_space :: "char \<Rightarrow> bool" where
  "is_space c =
     (c \<in> set [CHR '' '', CHR 0x09, CHR 0x0A, CHR 0x0B, CHR 0x0C, CHR 0x0D, CHR 0x85, CHR 0xA0])"

definition is_digit :: "char \<Rightarrow> bool" where
  "is_digit c = (c \<in> set ''0123456789'')"

definition strip :: "string \<Rightarrow> string" where
  "strip s = rev (dropWhile is_space (rev (dropWhile is_space s)))"

definition digit_val :: "char \<Rightarrow> int" where
  "digit_val c = int (of_char c) - 48"

text \<open>
  A group of decimal digits in which single underscores may separate digits, as the
  literals of \<open>int()\<close> and \<open>float()\<close> allow, and the number its digits denote.
\<close>

fun digit_group :: "string \<Rightarrow> bool" where
  "digit_group [] = False"
| "digit_group [c] = is_digit c"
| "digit_group (c # d # cs) =
     (is_digit c \<and> (if d = CHR ''_'' then digit_group cs else digit_group (d # cs)))"

definition decimal :: "string \<Rightarrow> int" where
  "decimal s = foldl (\<lambda>a c. 10 * a + digit_val c) 0 (filter is_digit s)"

definition drop_sign :: "string \<Rightarrow> string" where
  "drop_sign s =
     (case s of [] \<Rightarrow> [] | c # cs \<Rightarrow> if c = CHR ''+'' \<or> c = CHR ''-'' then cs else s)"

definition is_negative :: "string \<Rightarrow> bool" where
  "is_negative s = (case s of [] \<Rightarrow> False | c # cs \<Rightarrow> c = CHR ''-'')"

text \<open>
  \<open>int(text)\<close> in base ten; \<open>None\<close> stands for the \<open>ValueError\<close> it raises. The
  interpreter refuses a text of more than \<open>max_str_digits\<close> digits, 4300 unless the
  interpreter is started with another limit (the parser does not change it); signs,
  underscores and the surrounding blanks do not count, leading zeros do.
\<close>

definition max_str_digits :: nat where
  "max_str_digits = 4300"

definition py_int :: "string \<Rightarrow> int option" where
  "py_int s =
     (let t = strip s; body = drop_sign t in
      if digit_group body \<and> length (filter is_digit body) \<le> max_str_digits then
        Some (if is_negative t then - decimal body else decimal body)
      else None)"

definition py_lower :: "string \<Rightarrow> string" where
  "py_lower s =
     map (\<lambda>c. if 65 \<le> (of_char c :: nat) \<and> (of_char c :: nat) \<le> 90
               then char_of ((of_char c :: nat) + 32) else c) s"

fun bit_length :: "nat \<Rightarrow> nat" where
  "bit_length n = (if n = 0 then 0 else Suc (bit_length (n div 2)))"

text \<open>The quotient \<open>num / den\<close> rounded to the nearest integer, a tie to the even one.\<close>

definition round_half_even :: "nat \<Rightarrow> nat \<Rightarrow> nat" where
  "round_half_even num den =
     (let q = num div den; r = num mod den in
      if 2 * r < den then q
      else if den < 2 * r then q + 1
      else if even q then q else q + 1)"

text \<open>
  The binary64 number nearest to \<open>a / b\<close>, which is how \<open>float()\<close> rounds a decimal
  text: \<open>lg\<close> is the exponent of the leading bit of \<open>a / b\<close>, the quotient is rounded
  to 53 bits (to fewer below the normal range), and a result beyond the largest finite
  number is an infinity.
\<close>

definition to_double :: "bool \<Rightarrow> nat \<Rightarrow> nat \<Rightarrow> pyfloat" where
  "to_double neg a b =
     (if a = 0 then Finite neg 0 0
      else
        (let k = int (bit_length a) - int (bit_length b);
             lg = (if b * 2 ^ nat k \<le> a * 2 ^ nat (- k) then k else k - 1);
             e = max (lg - 52) (- 1074);
             m = round_half_even (a * 2 ^ nat (- e)) (b * 2 ^ nat e);
             e1 = (if m = 2 ^ 53 then e + 1 else e);
             m1 = (if m = 2 ^ 53 then 2 ^ 52 else m)
         in if m1 = 0 then Finite neg 0 0
            else if 971 < e1 then Infinite neg
            else Finite neg m1 e1))"

text \<open>
  The texts \<open>float()\<close> accepts: an optional sign, then \<open>inf\<close>, \<open>infinity\<close> or \<open>nan\<close> in
  any case, or a decimal number with an optional exponent.
\<close>

definition exponent_ok :: "string \<Rightarrow> bool" where
  "exponent_ok e =
     (case e of
        [] \<Rightarrow> True
      | c # cs \<Rightarrow> (c = CHR ''e'' \<or> c = CHR ''E'') \<and> digit_group (drop_sign cs))"

definition mantissa_ok :: "string \<Rightarrow> bool" where
  "mantissa_ok m =
     (let ip = takeWhile (\<lambda>c. c \<noteq> CHR ''.'') m;
          fp = dropWhile (\<lambda>c. c \<noteq> CHR ''.'') m
      in case fp of
           [] \<Rightarrow> digit_group ip
         | _ # frac \<Rightarrow>
             (ip = [] \<or> digit_group ip) \<and> (frac = [] \<or> digit_group frac)
             \<and> \<not> (ip = [] \<and> frac = []))"

text \<open>
  The number a decimal text denotes is \<open>digits * 10 ^ scale\<close>: \<open>digits\<close> are the digits
  of the mantissa without the point, and \<open>scale\<close> is the exponent less the number of
  digits after the point.
\<close>

definition decimal_value :: "bool \<Rightarrow> string \<Rightarrow> string \<Rightarrow> pyfloat" where
  "decimal_value neg m e =
     (let digits = nat (decimal m);
          frac = dropWhile (\<lambda>c. c \<noteq> CHR ''.'') m;
          ex = (case e of [] \<Rightarrow> 0
                | c # cs \<Rightarrow> if is_negative cs then - decimal cs else decimal cs);
          scale = ex - int (length (filter is_digit frac))
      in if 0 \<le> scale then to_double neg (digits * 10 ^ nat scale) 1
         else to_double neg digits (10 ^ nat (- scale)))"

text \<open>\<open>float(text)\<close>; \<open>None\<close> stands for the \<open>ValueError\<close> it raises.\<close>

definition py_float :: "string \<Rightarrow> pyfloat option" where
  "py_float s =
     (let t = strip s; body = drop_sign t;
          m = takeWhile (\<lambda>c. c \<noteq> CHR ''e'' \<and> c \<noteq> CHR ''E'') body;
          e = dropWhile (\<lambda>c. c \<noteq> CHR ''e'' \<and> c \<noteq> CHR ''E'') body
      in if py_lower body \<in> set [''inf'', ''infinity''] then Some (Infinite (is_negative t))
         else if py_lower body = ''nan'' then Some NaN
         else if mantissa_ok m \<and> exponent_ok e then Some (decimal_value (is_negative t) m e)
         else None)"

section \<open>Outcomes of a parsing method\<close>

text \<open>
  A method returns a value and leaves the parser object in a new state, or raises an
  exception (the object keeps the state it had at that moment). The recursive methods
  take a fuel argument; \<open>OutOfFuel\<close> is the answer of a run that exhausted it.
\<close>

datatype exn = AttributeError | ValueError

datatype 'a outcome = OutOfFuel | Raise exn parser | Ret 'a parser

fun and_then :: "'a outcome \<Rightarrow> ('a \<Rightarrow> parser \<Rightarrow> 'b outcome) \<Rightarrow> 'b outcome" where
  "and_then OutOfFuel f = OutOfFuel"
| "and_then (Raise x s) f = Raise x s"
| "and_then (Ret a s) f = f a s"

section \<open>Expressions\<close>

text \<open>
  The expression methods call each other in a cycle (\<open>parse_primary\<close> calls
  \<open>parse_expression\<close> for a parenthesis and for call arguments). Each method below
  takes \<open>pe\<close>, the \<open>self.parse_expression\<close> it calls, and the fuel \<open>n\<close> that bounds the
  iterations of its loops; \<open>parse_expression\<close> closes the cycle by recursion on the fuel.

  \<open>args_loop\<close> is the loop that collects the call arguments after a comma; it stands
  twice in the source with the same text, in \<open>parse_primary\<close> and in
  \<open>parse_function_call\<close>. \<open>binop_loop\<close> is the \<open>while\<close> loop of the five binary layers,
  which differ in the token types they accept and in the method they call for an operand.
\<close>

fun args_loop ::
  "(parser \<Rightarrow> node option outcome) \<Rightarrow> nat \<Rightarrow> node option list \<Rightarrow> parser
     \<Rightarrow> node option list outcome" where
  "args_loop pe 0 args s = OutOfFuel"
| "args_loop pe (Suc n) args s =
     (case current_token s of
        None \<Rightarrow> Ret args s
      | Some t \<Rightarrow>
          if tok_type t = ''COMMA'' then
            (case pe (advance s) of
               OutOfFuel \<Rightarrow> OutOfFuel
             | Raise x s1 \<Rightarrow> Raise x s1
             | Ret a s1 \<Rightarrow> args_loop pe n (args @ [a]) s1)
          else Ret args s)"

definition parse_primary ::
  "(parser \<Rightarrow> node option outcome) \<Rightarrow> nat \<Rightarrow> parser \<Rightarrow> node option outcome" where
  "parse_primary pe n s =
     (case current_token s of
        None \<Rightarrow> Raise AttributeError s
      | Some token \<Rightarrow>
          if tok_type token = ''INTEGER'' then
            (case py_int (tok_value token) of
               None \<Rightarrow> Raise ValueError (advance s)
             | Some i \<Rightarrow> Ret (Some (Integer i)) (advance s))
          else if tok_type token = ''FLOAT'' then
            (case py_float (tok_value token) of
               None \<Rightarrow> Raise ValueError (advance s)
             | Some f \<Rightarrow> Ret (Some (Float f)) (advance s))
          else if tok_type token = ''LPAREN'' then
            and_then (pe (advance s))
              (\<lambda>expr s1.
                 case expect ''RPAREN'' (Some ''Missing closing parenthesis'') s1 of
                   (_, s2) \<Rightarrow> Ret expr s2)
          else if tok_type token = ''ID'' then
            (let s1 = advance s in
             case current_token s1 of
               None \<Rightarrow> Ret (Some (Location (tok_value token))) s1
             | Some t1 \<Rightarrow>
                 if tok_type t1 = ''LPAREN'' then
                   (let s2 = advance s1 in
                    and_then
                      (case current_token s2 of
                         None \<Rightarrow> Raise AttributeError s2
                       | Some t2 \<Rightarrow>
                           if tok_type t2 \<noteq> ''RPAREN'' then
                             and_then (pe s2) (\<lambda>a s3. args_loop pe n [a] s3)
                           else Ret [] s2)
                      (\<lambda>args s4.
                         case expect ''RPAREN''
                                (Some ''Expected ')' after function arguments'') s4 of
                           (_, s5) \<Rightarrow> Ret (Some (FunctionCall (tok_value token) args)) s5))
                 else Ret (Some (Location (tok_value token))) s1)
          else if tok_type token \<in> set [''TRUE'', ''FALSE''] then
            Ret (Some (Boolean (py_lower (tok_value token) = ''true''))) (advance s)
          else if tok_type token = ''STRING'' then
            Ret (Some (String (tok_value token))) (advance s)
          else
            Ret None
              (advance (s\<lparr>error_handler :=
                 add_error ''Invalid expression'' (LineNo (lineno token)) (error_handler s)\<rparr>)))"

definition parse_unary ::
  "(parser \<Rightarrow> node option outcome) \<Rightarrow> nat \<Rightarrow> parser \<Rightarrow> node option outcome" where
  "parse_unary pe n s =
     (case current_token s of
        None \<Rightarrow> parse_primary pe n s
      | Some t \<Rightarrow>
          if tok_type t \<in> set [''PLUS'', ''MINUS'', ''NOT'', ''DEREF''] then
            and_then (parse_primary pe n (advance s))
              (\<lambda>operand s1. Ret (Some (UnaryOp (tok_value t) operand)) s1)
          else parse_primary pe n s)"

fun binop_loop ::
  "string list \<Rightarrow> (parser \<Rightarrow> node option outcome) \<Rightarrow> nat \<Rightarrow> node option \<Rightarrow> parser
     \<Rightarrow> node option outcome" where
  "binop_loop ops sub 0 node s = OutOfFuel"
| "binop_loop ops sub (Suc n) node s =
     (case current_token s of
        None \<Rightarrow> Ret node s
      | Some t \<Rightarrow>
          if tok_type t \<in> set ops then
            (case sub (advance s) of
               OutOfFuel \<Rightarrow> OutOfFuel
             | Raise x s1 \<Rightarrow> Raise x s1
             | Ret right s1 \<Rightarrow> binop_loop ops sub n (Some (BinOp (tok_value t) node right)) s1)
          else Ret node s)"

definition parse_factor ::
  "(parser \<Rightarrow> node option outcome) \<Rightarrow> nat \<Rightarrow> parser \<Rightarrow> node option outcome" where
  "parse_factor pe n s =
     and_then (parse_unary pe n s)
       (\<lambda>node s1. binop_loop [''TIMES'', ''DIVIDE'', ''MOD'', ''INT_DIV''] (parse_unary pe n) n node s1)"

definition parse_term ::
  "(parser \<Rightarrow> node option outcome) \<Rightarrow> nat \<Rightarrow> parser \<Rightarrow> node option outcome" where
  "parse_term pe n s =
     and_then (parse_factor pe n s)
       (\<lambda>node s1. binop_loop [''PLUS'', ''MINUS''] (parse_factor pe n) n node s1)"

definition parse_comparison ::
  "(parser \<Rightarrow> node option outcome) \<Rightarrow> nat \<Rightarrow> parser \<Rightarrow> node option outcome" where
  "parse_comparison pe n s =
     and_then (parse_term pe n s)
       (\<lambda>node s1. binop_loop [''LT'', ''GT'', ''LE'', ''GE'', ''EQ'', ''NE''] (parse_term pe n) n node s1)"

definition parse_logic_and ::
  "(parser \<Rightarrow> node option outcome) \<Rightarrow> nat \<Rightarrow> parser \<Rightarrow> node option outcome" where
  "parse_logic_and pe n s =
     and_then (parse_comparison pe n s)
       (\<lambda>node s1. binop_loop [''LAND''] (parse_comparison pe n) n node s1)"

definition parse_logic_or ::
  "(parser \<Rightarrow> node option outcome) \<Rightarrow> nat \<Rightarrow> parser \<Rightarrow> node option outcome" where
  "parse_logic_or pe n s =
     and_then (parse_logic_and pe n s)
       (\<lambda>node s1. binop_loop [''LOR''] (parse_logic_and pe n) n node s1)"

fun parse_expression :: "nat \<Rightarrow> parser \<Rightarrow> node option outcome" where
  "parse_expression 0 s = OutOfFuel"
| "parse_expression (Suc n) s = parse_logic_or (parse_expression n) n s"

section \<open>Statements\<close>

definition parse_location :: "parser \<Rightarrow> node outcome" where
  "parse_location s =
     (case current_token s of
        None \<Rightarrow> Raise AttributeError s
      | Some t \<Rightarrow> (case expect ''ID'' None s of (_, s1) \<Rightarrow> Ret (Location (tok_value t)) s1))"

definition parse_print :: "nat \<Rightarrow> parser \<Rightarrow> node option outcome" where
  "parse_print n s =
     (case expect ''PRINT'' None s of
        (_, s1) \<Rightarrow>
          and_then (parse_expression n s1)
            (\<lambda>expr s2.
               case expect ''SEMI'' (Some ''Missing ';' after print statement'') s2 of
                 (_, s3) \<Rightarrow> Ret (Some (Print expr)) s3))"

definition parse_assignment :: "nat \<Rightarrow> parser \<Rightarrow> node option outcome" where
  "parse_assignment n s =
     and_then (parse_location s)
       (\<lambda>location s1.
          case expect ''ASSIGN'' (Some ''Missing '=' in assignment'') s1 of
            (_, s2) \<Rightarrow>
              and_then (parse_expression n s2)
                (\<lambda>expr s3.
                   case expect ''SEMI'' (Some ''Missing ';' after assignment'') s3 of
                     (_, s4) \<Rightarrow> Ret (Some (Assignment location expr)) s4))"

definition parse_declaration :: "nat \<Rightarrow> parser \<Rightarrow> node option outcome" where
  "parse_declaration n s =
     (case current_token s of
        None \<Rightarrow> Raise AttributeError s
      | Some t \<Rightarrow>
          (let is_const = (tok_type t = ''CONST''); s1 = advance s in
           case current_token s1 of
             None \<Rightarrow> Raise AttributeError s1
           | Some t1 \<Rightarrow>
               (let ident = tok_value t1 in
                case expect ''ID'' (Some ''Expected identifier in declaration'') s1 of
                  (_, s2) \<Rightarrow>
                    (case (case current_token s2 of
                             None \<Rightarrow> (None, s2)
                           | Some t2 \<Rightarrow>
                               if tok_type t2 = ''ID'' then (Some (tok_value t2), advance s2)
                               else (None, s2)) of
                       (var_type, s3) \<Rightarrow>
                         and_then
                           (case current_token s3 of
                              None \<Rightarrow> Ret None s3
                            | Some t3 \<Rightarrow>
                                if tok_type t3 = ''ASSIGN'' then parse_expression n (advance s3)
                                else Ret None s3)
                           (\<lambda>val s4.
                              (let s5 = (case current_token s4 of
                                           None \<Rightarrow> s4
                                         | Some t4 \<Rightarrow>
                                             if tok_type t4 = ''SEMI'' then advance s4 else s4)
                               in Ret (Some (if is_const then ConstantDecl ident val
                                             else VariableDecl ident var_type val)) s5))))))"

definition parse_function_call :: "nat \<Rightarrow> parser \<Rightarrow> node option outcome" where
  "parse_function_call n s =
     (case current_token s of
        None \<Rightarrow> Raise AttributeError s
      | Some t \<Rightarrow>
          (case expect ''ID'' (Some ''Expected function name'') s of
             (_, s1) \<Rightarrow>
               (case expect ''LPAREN'' (Some ''Expected '(' after function name'') s1 of
                  (_, s2) \<Rightarrow>
                    and_then
                      (case current_token s2 of
                         None \<Rightarrow> Raise AttributeError s2
                       | Some t2 \<Rightarrow>
                           if tok_type t2 \<noteq> ''RPAREN'' then
                             and_then (parse_expression n s2)
                               (\<lambda>a s3. args_loop (parse_expression n) n [a] s3)
                           else Ret [] s2)
                      (\<lambda>args s4.
                         case expect ''RPAREN''
                                (Some ''Expected ')' after function arguments'') s4 of
                           (_, s5) \<Rightarrow>
                             (case expect ''SEMI'' (Some ''Missing ';' after function call'') s5 of
                                (_, s6) \<Rightarrow> Ret (Some (FunctionCall (tok_value t) args)) s6)))))"

definition parse_return :: "nat \<Rightarrow> parser \<Rightarrow> node option outcome" where
  "parse_return n s =
     (case expect ''RETURN'' None s of
        (_, s1) \<Rightarrow>
          and_then (parse_expression n s1)
            (\<lambda>expr s2.
               case expect ''SEMI'' (Some ''Missing ';' after return statement'') s2 of
                 (_, s3) \<Rightarrow> Ret (Some (Return expr)) s3))"

definition parse_import :: "parser \<Rightarrow> node option outcome" where
  "parse_import s =
     (case expect ''IMPORT'' None s of
        (_, s1) \<Rightarrow>
          (case expect ''ID'' (Some ''Expected module name after IMPORT'') s1 of
             (None, s2) \<Rightarrow> Ret None s2
           | (Some module_token, s2) \<Rightarrow>
               (case expect ''SEMI'' (Some ''Missing ';' after import declaration'') s2 of
                  (_, s3) \<Rightarrow> Ret (Some (ImportDecl (tok_value module_token))) s3)))"

text \<open>
  The loop over the remaining parameters of \<open>parse_function\<close>. Every iteration consumes
  the comma, so the loop ends on its own.
\<close>

function params_loop :: "node option list \<Rightarrow> parser \<Rightarrow> node option list outcome" where
  "params_loop params s =
     (case current_token s of
        None \<Rightarrow> Ret params s
      | Some t \<Rightarrow>
          if tok_type t = ''COMMA'' then
            (case current_token (advance s) of
               None \<Rightarrow> Raise AttributeError (advance s)
             | Some t1 \<Rightarrow>
                 params_loop (params @ [Some (Parameter (tok_value t1) None)])
                   (snd (expect ''ID'' (Some ''Expected parameter name'') (advance s))))
          else Ret params s)"
  by pat_completeness auto
termination
proof (relation "measure (\<lambda>(params, s). length (tokens s) - pos s)", goal_cases)
  case 1
  show ?case by simp
next
  case (2 params s t t1)
  have a: "pos s + 1 < length (tokens s)"
    using 2(3) by (auto simp: advance_def Let_def split: if_splits)
  have b: "pos s < pos (snd (expect ''ID'' (Some ''Expected parameter name'') (advance s)))
           \<and> tokens (snd (expect ''ID'' (Some ''Expected parameter name'') (advance s))) = tokens s"
    by (auto simp: expect_def advance_def Let_def split: option.splits)
  show ?case using a b by auto
qed

text \<open>
  The loop that fills a block (\<open>consequence\<close>, \<open>alternative\<close> and the two \<open>body\<close>
  sequences, four times in the source with the same text): while a token is left and it
  is not \<open>RBRACE\<close>, append whatever \<open>parse_statement\<close> returns. \<open>ps\<close> is the
  \<open>self.parse_statement\<close> the loop calls.
\<close>

fun block_loop ::
  "(parser \<Rightarrow> node option outcome) \<Rightarrow> nat \<Rightarrow> node option list \<Rightarrow> parser
     \<Rightarrow> node option list outcome" where
  "block_loop ps 0 stmts s = OutOfFuel"
| "block_loop ps (Suc n) stmts s =
     (case current_token s of
        None \<Rightarrow> Ret stmts s
      | Some t \<Rightarrow>
          if tok_type t \<noteq> ''RBRACE'' then
            (case ps s of
               OutOfFuel \<Rightarrow> OutOfFuel
             | Raise x s1 \<Rightarrow> Raise x s1
             | Ret stmt s1 \<Rightarrow> block_loop ps n (stmts @ [stmt]) s1)
          else Ret stmts s)"

definition parse_if ::
  "(parser \<Rightarrow> node option outcome) \<Rightarrow> nat \<Rightarrow> parser \<Rightarrow> node option outcome" where
  "parse_if ps n s =
     (case expect ''IF'' None s of
        (_, s1) \<Rightarrow>
          and_then (parse_expression n s1)
            (\<lambda>test s2.
               case expect ''LBRACE'' (Some ''Missing '{' after if condition'') s2 of
                 (_, s3) \<Rightarrow>
                   and_then (block_loop ps n [] s3)
                     (\<lambda>consequence s4.
                        case expect ''RBRACE'' (Some ''Missing '}' at the end of if block'') s4 of
                          (_, s5) \<Rightarrow>
                            and_then
                              (case current_token s5 of
                                 None \<Rightarrow> Ret [] s5
                               | Some t \<Rightarrow>
                                   if tok_type t = ''ELSE'' then
                                     (case expect ''LBRACE'' (Some ''Missing '{' after else'')
                                             (advance s5) of
                                        (_, s6) \<Rightarrow>
                                          and_then (block_loop ps n [] s6)
                                            (\<lambda>alternative s7.
                                               case expect ''RBRACE''
                                                      (Some ''Missing '}' at the end of else block'')
                                                      s7 of
                                                 (_, s8) \<Rightarrow> Ret alternative s8))
                                   else Ret [] s5)
                              (\<lambda>alternative s9.
                                 Ret (Some (If test consequence alternative)) s9))))"

definition parse_while ::
  "(parser \<Rightarrow> node option outcome) \<Rightarrow> nat \<Rightarrow> parser \<Rightarrow> node option outcome" where
  "parse_while ps n s =
     (case expect ''WHILE'' None s of
        (_, s1) \<Rightarrow>
          and_then (parse_expression n s1)
            (\<lambda>test s2.
               case expect ''LBRACE'' (Some ''Missing '{' after while condition'') s2 of
                 (_, s3) \<Rightarrow>
                   and_then (block_loop ps n [] s3)
                     (\<lambda>body s4.
                        case expect ''RBRACE''
                               (Some ''Missing '}' at the end of while block'') s4 of
                          (_, s5) \<Rightarrow> Ret (Some (While test body)) s5)))"

definition parse_function ::
  "(parser \<Rightarrow> node option outcome) \<Rightarrow> nat \<Rightarrow> parser \<Rightarrow> node option outcome" where
  "parse_function ps n s =
     (case expect ''FUNC'' None s of
        (_, s1) \<Rightarrow>
          (case current_token s1 of
             None \<Rightarrow> Raise AttributeError s1
           | Some t \<Rightarrow>
               (case expect ''ID'' (Some ''Expected function name after FUNC keyword'') s1 of
                  (_, s2) \<Rightarrow>
                    (case expect ''LPAREN''
                            (Some ''Expected '(' after function name in declaration'') s2 of
                       (_, s3) \<Rightarrow>
                         and_then
                           (case current_token s3 of
                              None \<Rightarrow> Raise AttributeError s3
                            | Some t3 \<Rightarrow>
                                if tok_type t3 \<noteq> ''RPAREN'' then
                                  params_loop [Some (Parameter (tok_value t3) None)]
                                    (snd (expect ''ID'' (Some ''Expected parameter name'') s3))
                                else Ret [] s3)
                           (\<lambda>params s4.
                              case expect ''RPAREN''
                                     (Some ''Expected ')' after parameters in function declaration'')
                                     s4 of
                                (_, s5) \<Rightarrow>
                                  (case expect ''LBRACE''
                                          (Some ''Expected '{' to start function body'') s5 of
                                     (_, s6) \<Rightarrow>
                                       and_then (block_loop ps n [] s6)
                                         (\<lambda>body s7.
                                            case expect ''RBRACE''
                                                   (Some ''Expected '}' to end function body'') s7 of
                                              (_, s8) \<Rightarrow>
                                                Ret (Some (FunctionDecl (tok_value t) params
                                                             None body)) s8)))))))"

fun parse_statement :: "nat \<Rightarrow> parser \<Rightarrow> node option outcome" where
  "parse_statement 0 s = OutOfFuel"
| "parse_statement (Suc n) s =
     (case current_token s of
        None \<Rightarrow> Ret None s
      | Some t \<Rightarrow>
          if tok_type t = ''IMPORT'' then parse_import s
          else if tok_type t \<in> set [''VAR'', ''CONST''] then
            and_then (parse_declaration n s)
              (\<lambda>stmt s1.
                 case expect ''SEMI'' (Some ''Missing ';' after declaration'') s1 of
                   (_, s2) \<Rightarrow> Ret stmt s2)
          else if tok_type t = ''PRINT'' then parse_print n s
          else if tok_type t = ''IF'' then parse_if (parse_statement n) n s
          else if tok_type t = ''WHILE'' then parse_while (parse_statement n) n s
          else if tok_type t = ''FUNC'' then parse_function (parse_statement n) n s
          else if tok_type t = ''RETURN'' then parse_return n s
          else if tok_type t = ''ID'' then
            (case peek s 1 of
               None \<Rightarrow> parse_assignment n s
             | Some p \<Rightarrow>
                 if tok_type p = ''LPAREN'' then parse_function_call n s
                 else parse_assignment n s)
          else
            Ret None
              (advance (s\<lparr>error_handler :=
                 add_error (''Unexpected token type: '' @ tok_type t) (LineNo (lineno t))
                   (error_handler s)\<rparr>)))"

text \<open>
  The loop of \<open>parse\<close>: a statement that is not \<open>None\<close> is appended; after a \<open>None\<close>
  the loop calls \<open>advance\<close>.
\<close>

fun parse_loop ::
  "(parser \<Rightarrow> node option outcome) \<Rightarrow> nat \<Rightarrow> node option list \<Rightarrow> parser
     \<Rightarrow> node option list outcome" where
  "parse_loop ps 0 statements s = OutOfFuel"
| "parse_loop ps (Suc n) statements s =
     (case current_token s of
        None \<Rightarrow> Ret statements s
      | Some t \<Rightarrow>
          (case ps s of
             OutOfFuel \<Rightarrow> OutOfFuel
           | Raise x s1 \<Rightarrow> Raise x s1
           | Ret None s1 \<Rightarrow> parse_loop ps n statements (advance s1)
           | Ret (Some stmt) s1 \<Rightarrow> parse_loop ps n (statements @ [Some stmt]) s1))"

definition parse :: "nat \<Rightarrow> parser \<Rightarrow> node outcome" where
  "parse n s =
     and_then (parse_loop (parse_statement n) n [] s)
       (\<lambda>statements s1. Ret (Program statements) s1)"

section \<open>Serialization\<close>

text \<open>
  The documents \<open>_serialize_ast\<close> builds: \<open>None\<close>, lists, and dictionaries, whose keys
  keep the order of their first insertion. \<open>dict_set\<close> is the assignment
  \<open>data[key] = v\<close>: it replaces the value of a key that is present and appends a new key.
\<close>

datatype json =
    JNull
  | JBool bool
  | JInt int
  | JFloat pyfloat
  | JString string
  | JArray "json list"
  | JObject "(string \<times> json) list"

fun dict_set :: "(string \<times> json) list \<Rightarrow> string \<Rightarrow> json \<Rightarrow> (string \<times> json) list" where
  "dict_set [] key v = [(key, v)]"
| "dict_set ((k, w) # kvs) key v =
     (if k = key then (k, v) # kvs else (k, w) # dict_set kvs key v)"

definition json_of_opt_string :: "string option \<Rightarrow> json" where
  "json_of_opt_string x = (case x of None \<Rightarrow> JNull | Some t \<Rightarrow> JString t)"

definition json_or_null :: "json option \<Rightarrow> json" where
  "json_or_null x = (case x of None \<Rightarrow> JNull | Some j \<Rightarrow> j)"

text \<open>
  \<open>_serialize_ast\<close> on a node. Its two other cases, \<open>None\<close> and a list, are
  \<open>serialize_opt\<close> and \<open>serialize_list\<close> below; inside the recursion they are written
  with the map functions of \<open>option\<close> and \<open>list\<close>.
\<close>

primrec serialize_ast :: "node \<Rightarrow> json" where
  "serialize_ast (Program statements) =
     JObject (dict_set [(''type'', JString ''Program'')] ''statements''
       (JArray (map json_or_null (map (map_option serialize_ast) statements))))"
| "serialize_ast (Integer v) =
     JObject (dict_set [(''type'', JString ''Integer'')] ''value'' (JInt v))"
| "serialize_ast (Float v) =
     JObject (dict_set [(''type'', JString ''Float'')] ''value'' (JFloat v))"
| "serialize_ast (Boolean v) =
     JObject (dict_set [(''type'', JString ''Boolean'')] ''value'' (JBool v))"
| "serialize_ast (String v) =
     JObject (dict_set [(''type'', JString ''String'')] ''value'' (JString v))"
| "serialize_ast (BinOp op left right) =
     JObject (dict_set (dict_set (dict_set [(''type'', JString ''BinOp'')]
       ''operator'' (JString op))
       ''left'' (json_or_null (map_option serialize_ast left)))
       ''right'' (json_or_null (map_option serialize_ast right)))"
| "serialize_ast (UnaryOp op operand) =
     JObject (dict_set (dict_set [(''type'', JString ''UnaryOp'')]
       ''operator'' (JString op))
       ''operand'' (json_or_null (map_option serialize_ast operand)))"
| "serialize_ast (Location name) =
     JObject (dict_set [(''type'', JString ''Location'')] ''name'' (JString name))"
| "serialize_ast (FunctionCall name args) =
     JObject (dict_set (dict_set [(''type'', JString ''FunctionCall'')]
       ''name'' (JString name))
       ''arguments'' (JArray (map json_or_null (map (map_option serialize_ast) args))))"
| "serialize_ast (Print expr) =
     JObject (dict_set [(''type'', JString ''Print'')]
       ''expression'' (json_or_null (map_option serialize_ast expr)))"
| "serialize_ast (Assignment location expr) =
     JObject (dict_set (dict_set [(''type'', JString ''Assignment'')]
       ''target'' (serialize_ast location))
       ''value'' (json_or_null (map_option serialize_ast expr)))"
| "serialize_ast (If test consequence alternative) =
     JObject (dict_set (dict_set (dict_set [(''type'', JString ''If'')]
       ''condition'' (json_or_null (map_option serialize_ast test)))
       ''consequence'' (JArray (map json_or_null (map (map_option serialize_ast) consequence))))
       ''alternative'' (JArray (map json_or_null (map (map_option serialize_ast) alternative))))"
| "serialize_ast (While test body) =
     JObject (dict_set (dict_set [(''type'', JString ''While'')]
       ''condition'' (json_or_null (map_option serialize_ast test)))
       ''body'' (JArray (map json_or_null (map (map_option serialize_ast) body))))"
| "serialize_ast (VariableDecl name var_type val) =
     JObject (dict_set (dict_set (dict_set [(''type'', JString ''VariableDecl'')]
       ''name'' (JString name))
       ''type'' (json_of_opt_string var_type))
       ''initial_value'' (json_or_null (map_option serialize_ast val)))"
| "serialize_ast (ConstantDecl name val) =
     JObject (dict_set (dict_set [(''type'', JString ''ConstantDecl'')]
       ''name'' (JString name))
       ''value'' (json_or_null (map_option serialize_ast val)))"
| "serialize_ast (FunctionDecl name params return_type body) =
     JObject (dict_set (dict_set (dict_set (dict_set [(''type'', JString ''FunctionDecl'')]
       ''name'' (JString name))
       ''parameters'' (JArray (map json_or_null (map (map_option serialize_ast) params))))
       ''return_type'' (json_of_opt_string return_type))
       ''body'' (JArray (map json_or_null (map (map_option serialize_ast) body))))"
| "serialize_ast (Return expr) =
     JObject (dict_set [(''type'', JString ''Return'')]
       ''value'' (json_or_null (map_option serialize_ast expr)))"
| "serialize_ast (Parameter name param_type) =
     JObject (dict_set (dict_set [(''type'', JString ''Parameter'')]
       ''name'' (JString name))
       ''type'' (json_of_opt_string param_type))"
| "serialize_ast (ImportDecl module_name) =
     JObject (dict_set [(''type'', JString ''ImportDecl'')]
       ''module_name'' (JString module_name))"






section \<open>Reading documents\<close>

text \<open>
  The fields of a dictionary, its keys in order, the value under a key, and whether a key
  occurs anywhere in a document.
\<close>

definition fields :: "json \<Rightarrow> (string \<times> json) list" where
  "fields j = (case j of JObject kvs \<Rightarrow> kvs | _ \<Rightarrow> [])"


definition lookup :: "string \<Rightarrow> json \<Rightarrow> json option" where
  "lookup k j = map_of (fields j) k"






section \<open>The invariant of the parser object and the outcome of a bounded run\<close>

text \<open>
  \<open>wf\<close> is the invariant that \<open>__init__\<close> establishes and \<open>advance\<close> keeps:
  \<open>current_token\<close> is the token at \<open>pos\<close>, or \<open>None\<close> when \<open>pos\<close> is past the last
  token. \<open>remaining\<close> counts the tokens from the cursor on.
\<close>

definition wf :: "parser \<Rightarrow> bool" where
  "wf s = (current_token s = (if pos s < length (tokens s) then Some (tokens s ! pos s) else None))"





section \<open>Concrete inputs\<close>

text \<open>\<open>Token ty v ln\<close> is the token with type \<open>ty\<close>, text \<open>v\<close> and line \<open>ln\<close>.\<close>

definition Token :: "string \<Rightarrow> string \<Rightarrow> int \<Rightarrow> token" where
  "Token ty v ln = \<lparr>tok_type = ty, tok_value = v, lineno = ln\<rparr>"

section \<open>Facts used throughout\<close>

lemmas expr_defs =
  parse_logic_or_def parse_logic_and_def parse_comparison_def parse_term_def
  parse_factor_def parse_unary_def parse_primary_def

lemmas lit_defs =
  py_int_def strip_def is_space_def is_digit_def drop_sign_def digit_val_def decimal_def
  is_negative_def max_str_digits_def

section \<open>The contract of \<open>expect\<close>\<close>

text \<open>
  C6. When the current token exists and has the requested type, \<open>expect\<close> returns it and
  the parser has advanced. Otherwise \<open>expect\<close> returns the failure marker and the only
  change to the parser is one diagnostic appended to the error sink: its message is the
  given one (the default \<open>Expected <token_type>\<close> when none or an empty one is given) and
  its line is the line of the current token, or \<open>End of file\<close> when no token is left.
  The cursor does not move, and the method returns in both cases.
\<close>

theorem expect_contract:
  "(current_token s = Some t \<and> tok_type t = token_type
      \<longrightarrow> expect token_type err_msg s = (Some t, advance s))
   \<and> (\<not> (\<exists>t. current_token s = Some t \<and> tok_type t = token_type)
      \<longrightarrow> expect token_type err_msg s =
           (None,
            s\<lparr>error_handler :=
                error_handler s @
                [(case err_msg of
                    None \<Rightarrow> ''Expected '' @ token_type
                  | Some m \<Rightarrow> if m = [] then ''Expected '' @ token_type else m,
                  case current_token s of
                    None \<Rightarrow> LineText ''End of file''
                  | Some t \<Rightarrow> LineNo (lineno t))]\<rparr>))"
  by (auto simp: expect_def add_error_def Let_def split: option.splits)

theorem expect_contract_witness:
  "expect ''ID'' None (Parser [Token ''ID'' ''x'' 7] []) =
     (Some (Token ''ID'' ''x'' 7), advance (Parser [Token ''ID'' ''x'' 7] []))
   \<and> expect ''SEMI'' (Some ''Missing ';' after print statement'')
        (Parser [Token ''ID'' ''x'' 7] []) =
     (None,
      (Parser [Token ''ID'' ''x'' 7] [])
        \<lparr>error_handler := [(''Missing ';' after print statement'', LineNo 7)]\<rparr>)
   \<and> expect ''SEMI'' None (Parser [] []) =
     (None, (Parser [] [])\<lparr>error_handler := [(''Expected SEMI'', LineText ''End of file'')]\<rparr>)"
  using expect_contract [of "Parser [Token ''ID'' ''x'' 7] []" "Token ''ID'' ''x'' 7" "''ID''" None]
    expect_contract [of "Parser [Token ''ID'' ''x'' 7] []" "Token ''ID'' ''x'' 7" "''SEMI''"
      "Some ''Missing ';' after print statement''"]
    expect_contract [of "Parser [] []" "Token ''ID'' ''x'' 7" "''SEMI''" None]
  by (simp add: Parser_def Token_def)

section \<open>Runs on concrete token sequences\<close>

text \<open>
  C10. A parser built on the empty token sequence returns, for every positive amount of
  fuel, a \<open>Program\<close> with no statements; the parser object, and with it the error sink, is
  as it was built, and no exception is raised.
\<close>

theorem parse_empty_tokens:
  "parse (Suc n) (Parser [] eh) = Ret (Program []) (Parser [] eh)
   \<and> error_handler (Parser [] eh) = eh"
  by (simp add: parse_def Parser_def)

text \<open>
  C8. The tokens of \<open>1 + 2 * 3\<close> parse to \<open>BinOp(+, Integer(1), BinOp(*, Integer(2),
  Integer(3)))\<close>: all five tokens are consumed and nothing is added to the error sink.
\<close>

theorem precedence_mul_over_add:
  "parse_expression (Suc (Suc (Suc (Suc (Suc n)))))
     (Parser [Token ''INTEGER'' ''1'' 1, Token ''PLUS'' ''+'' 1, Token ''INTEGER'' ''2'' 1,
              Token ''TIMES'' ''*'' 1, Token ''INTEGER'' ''3'' 1] eh) =
   Ret (Some (BinOp ''+'' (Some (Integer 1))
               (Some (BinOp ''*'' (Some (Integer 2)) (Some (Integer 3))))))
     \<lparr>tokens = [Token ''INTEGER'' ''1'' 1, Token ''PLUS'' ''+'' 1, Token ''INTEGER'' ''2'' 1,
                Token ''TIMES'' ''*'' 1, Token ''INTEGER'' ''3'' 1],
      error_handler = eh, pos = 5, current_token = None\<rparr>"
  by (simp add: Parser_def Token_def expr_defs advance_def lit_defs)

text \<open>
  C1, at the program \<open>var x;\<close>, which the grammar derives as one statement
  (\<open>statement ::= decl ';'\<close>, \<open>decl ::= 'var' ID\<close>): \<open>parse_declaration\<close> consumes the
  semicolon, \<open>parse_statement\<close> then expects it again, and the run records the diagnostic
  \<open>Missing ';' after declaration\<close>.
\<close>

theorem declaration_semicolon_diagnostic:
  "parse (Suc (Suc (Suc n)))
     (Parser [Token ''VAR'' ''var'' 1, Token ''ID'' ''x'' 1, Token ''SEMI'' '';'' 1] []) =
   Ret (Program [Some (VariableDecl ''x'' None None)])
     \<lparr>tokens = [Token ''VAR'' ''var'' 1, Token ''ID'' ''x'' 1, Token ''SEMI'' '';'' 1],
      error_handler = [(''Missing ';' after declaration'', LineText ''End of file'')],
      pos = 3, current_token = None\<rparr>"
  by (simp add: parse_def Parser_def Token_def advance_def add_error_def parse_declaration_def
      expect_def Let_def)

text \<open>
  C2, at the tokens of \<open>; print 1 ;\<close>: no rule starts with \<open>;\<close>, so \<open>parse_statement\<close>
  records the diagnostic and advances, and the loop of \<open>parse\<close> advances once more. The
  next statement attempt is at \<open>1\<close>, two tokens on: the valid statement \<open>print 1;\<close> is
  lost and a second diagnostic is recorded.
\<close>

theorem top_level_recovery_skips_two:
  "parse (Suc (Suc (Suc n)))
     (Parser [Token ''SEMI'' '';'' 1, Token ''PRINT'' ''print'' 1, Token ''INTEGER'' ''1'' 1,
              Token ''SEMI'' '';'' 1] []) =
   Ret (Program [])
     \<lparr>tokens = [Token ''SEMI'' '';'' 1, Token ''PRINT'' ''print'' 1, Token ''INTEGER'' ''1'' 1,
                Token ''SEMI'' '';'' 1],
      error_handler = [(''Unexpected token type: SEMI'', LineNo 1),
                       (''Unexpected token type: INTEGER'', LineNo 1)],
      pos = 4, current_token = None\<rparr>"
  by (simp add: parse_def Parser_def Token_def advance_def add_error_def)

text \<open>
  C3, at the single token \<open>print\<close>: \<open>parse_primary\<close> reads the type of the current token
  when no token is left, which raises \<open>AttributeError\<close>; nothing is added to the error sink.
\<close>

theorem print_at_end_raises:
  "parse (Suc (Suc (Suc n))) (Parser [Token ''PRINT'' ''print'' 1] eh) =
   Raise AttributeError
     \<lparr>tokens = [Token ''PRINT'' ''print'' 1], error_handler = eh, pos = 1,
      current_token = None\<rparr>"
  by (simp add: parse_def Parser_def Token_def advance_def parse_print_def expect_def expr_defs)

section \<open>The serializer\<close>



lemma variable_decl_type_overwritten:
  "lookup ''type'' (serialize_ast (VariableDecl ''x'' (Some ''int'') None)) = Some (JString ''int'')
   \<and> lookup ''type'' (serialize_ast (Parameter ''a'' None)) = Some JNull"
  by (simp add: lookup_def fields_def json_of_opt_string_def)









section \<open>Failure markers in statement sequences\<close>






section \<open>Termination and the bound on a run\<close>





lemma wf_error: "wf (s\<lparr>error_handler := e\<rparr>) = wf s"
  by (simp add: wf_def)


























































end
